theory Spec2Isabelle
  imports Main
begin

section \<open>Data model of the quiz game store\<close>

text \<open>
  The repository \<^verbatim>\<open>GamesRepository\<close> (src/games/games.repository.ts) works on a
  relational store through an ORM. The tables are modelled as lists of rows; the order of
  a list is the order in which the database hands the rows to a query that has no
  \<^verbatim>\<open>ORDER BY\<close>. Generated identifiers (uuid columns) are drawn from a counter of the
  store; timestamps are natural numbers supplied by the caller (the clock).
\<close>

datatype GameStatusEnum = pending | active | finished

type_synonym uuid = nat
type_synonym timestamp = nat

record GameEntity =
  game_id :: uuid
  status :: GameStatusEnum
  firstPlayerProgressId :: "uuid option"
  secondPlayerProgressId :: "uuid option"
  createdAt :: timestamp
  startGameDate :: "timestamp option"
  finishGameDate :: "timestamp option"

record ProgressEntity =
  progress_id :: uuid
  userId :: string
  score :: nat
  answers :: "string list"

record QuestionEntity =
  question_id :: uuid
  body :: string

record GameQuestionEntity =
  gq_id :: uuid
  gameId :: uuid
  questionId :: uuid
  order :: nat

record UserEntity =
  user_id :: string
  login :: string

record store =
  games :: "GameEntity list"
  progresses :: "ProgressEntity list"
  game_questions :: "GameQuestionEntity list"
  questions :: "QuestionEntity list"
  users :: "UserEntity list"
  next_id :: uuid

text \<open>
  Everything thrown inside the \<^verbatim>\<open>try\<close> blocks of the repository is caught and replaced by
  one \<^verbatim>\<open>HttpException\<close> with status \<^verbatim>\<open>BAD_REQUEST\<close>; the other errors are those
  the specification names (section 7).
\<close>

datatype error =
  ParticipationConflict | InsufficientQuestions | DuplicateAssignment | HttpException_BAD_REQUEST

section \<open>Collaborators of the repository\<close>

text \<open>
  Modelled from the spec: \<^verbatim>\<open>ProgressesRepository.createProgress\<close> is not among the
  sources. Section 4.4: it creates a Progress for the user with score 0 and an empty
  answer sequence, with no link to a game. The repository treats its result as nullable
  (\<^verbatim>\<open>if (!firstUserProgress)\<close>, \<^verbatim>\<open>progress?.id\<close>), so the result is an option.
\<close>

definition createProgress :: "string \<Rightarrow> store \<Rightarrow> ProgressEntity option \<times> store" where
  "createProgress uid s =
     (let p = \<lparr>progress_id = next_id s, userId = uid, score = 0, answers = []\<rparr>
      in (Some p, s\<lparr>progresses := progresses s @ [p], next_id := Suc (next_id s)\<rparr>))"

text \<open>
  Modelled from the spec: \<^verbatim>\<open>GetRandomQuestionsForGameUseCase.execute\<close> is not among the
  sources. Section 4.2 (\<^verbatim>\<open>drawQuestions\<close>): it draws \<open>count\<close> distinct questions from the pool without
  replacement and fails with \<open>InsufficientQuestions\<close> when the pool is smaller. The random
  choices are an argument: the \<open>k\<close>-th number of the seed selects, modulo the size of
  what is left of the pool, the \<open>k\<close>-th question.
\<close>

fun drawFrom :: "nat list \<Rightarrow> nat \<Rightarrow> QuestionEntity list \<Rightarrow> QuestionEntity list" where
  "drawFrom seed 0 pool = []"
| "drawFrom seed (Suc n) pool =
     (if pool = [] then []
      else (let i = (case seed of [] \<Rightarrow> 0 | r # _ \<Rightarrow> r mod length pool)
            in pool ! i # drawFrom (tl seed) n (take i pool @ drop (Suc i) pool)))"

definition getRandomQuestionsForGame :: "nat list \<Rightarrow> nat \<Rightarrow> store \<Rightarrow> error + QuestionEntity list" where
  "getRandomQuestionsForGame seed count s =
     (if length (questions s) < count then Inl InsufficientQuestions
      else Inr (drawFrom seed count (questions s)))"

text \<open>
  Modelled from the spec: \<^verbatim>\<open>SetRandomQuestionsForGameUseCase.execute\<close> is not among the
  sources. Section 4.2 (\<^verbatim>\<open>assignQuestions\<close>): it persists one GameQuestion row per drawn question, with
  \<open>order\<close> equal to the draw position counted from 0, in one batch; a second assignment
  to the same game is \<open>DuplicateAssignment\<close> and appends nothing.
\<close>

definition questionsOfGame :: "uuid \<Rightarrow> store \<Rightarrow> GameQuestionEntity list" where
  "questionsOfGame gid s = filter (\<lambda>r. gameId r = gid) (game_questions s)"

definition newGameQuestions :: "uuid \<Rightarrow> uuid \<Rightarrow> QuestionEntity list \<Rightarrow> GameQuestionEntity list" where
  "newGameQuestions base gid qs =
     map (\<lambda>(i, q). \<lparr>gq_id = base + i, gameId = gid, questionId = question_id q, order = i\<rparr>)
       (enumerate 0 qs)"

definition setRandomQuestionsForGame :: "QuestionEntity list \<Rightarrow> uuid \<Rightarrow> store \<Rightarrow> error + store" where
  "setRandomQuestionsForGame qs gid s =
     (if questionsOfGame gid s \<noteq> [] then Inl DuplicateAssignment
      else Inr (s\<lparr>game_questions := game_questions s @ newGameQuestions (next_id s) gid qs,
                  next_id := next_id s + length qs\<rparr>))"

section \<open>Reading games\<close>

text \<open>
  \<^verbatim>\<open>IExtendedGame\<close>, as \<^verbatim>\<open>getGameInPendingSecondPalyer\<close> builds it: the columns of the
  game row, the \<^verbatim>\<open>userId\<close> of the first player's progress (a scalar subquery, null when
  there is no such progress) and \<^verbatim>\<open>questions: null\<close>.
\<close>

record IExtendedGame = GameEntity +
  eg_userId :: "string option"
  eg_questions :: "GameQuestionEntity list option"

definition getGameInPendingSecondPalyer :: "store \<Rightarrow> IExtendedGame option" where
  "getGameInPendingSecondPalyer s =
     (case find (\<lambda>g. status g = pending \<and> firstPlayerProgressId g \<noteq> None) (games s) of
        None \<Rightarrow> None
      | Some g \<Rightarrow>
          Some \<lparr>game_id = game_id g, status = status g,
                firstPlayerProgressId = firstPlayerProgressId g,
                secondPlayerProgressId = secondPlayerProgressId g,
                createdAt = createdAt g, startGameDate = startGameDate g,
                finishGameDate = finishGameDate g,
                eg_userId = map_option userId
                  (find (\<lambda>p. firstPlayerProgressId g = Some (progress_id p)) (progresses s)),
                eg_questions = None\<rparr>)"

text \<open>
  \<^verbatim>\<open>getExtendedGameById\<close>: \<^verbatim>\<open>findOne\<close> by id with the relations \<^verbatim>\<open>questions\<close>,
  \<^verbatim>\<open>firstPlayerProgress\<close> and \<^verbatim>\<open>secondPlayerProgress\<close>. A relation to one row that does
  not exist is null. The callers read \<^verbatim>\<open>progress.user.login\<close> and
  \<^verbatim>\<open>question.question.body\<close>, so the loaded rows carry their user and their question
  (section 4.5 of the specification: progress records "with their owning users").
  The query names no order for the questions.
\<close>

record LoadedProgress =
  lp_progress :: ProgressEntity
  lp_user :: "UserEntity option"

record LoadedGameQuestion =
  lq_row :: GameQuestionEntity
  lq_question :: "QuestionEntity option"

record LoadedGame =
  lg_game :: GameEntity
  lg_questions :: "LoadedGameQuestion list"
  lg_firstPlayerProgress :: "LoadedProgress option"
  lg_secondPlayerProgress :: "LoadedProgress option"

definition loadProgress :: "store \<Rightarrow> uuid option \<Rightarrow> LoadedProgress option" where
  "loadProgress s pid =
     (case pid of None \<Rightarrow> None
      | Some i \<Rightarrow>
          map_option
            (\<lambda>p. \<lparr>lp_progress = p, lp_user = find (\<lambda>u. user_id u = userId p) (users s)\<rparr>)
            (find (\<lambda>p. progress_id p = i) (progresses s)))"

definition loadGameQuestion :: "store \<Rightarrow> GameQuestionEntity \<Rightarrow> LoadedGameQuestion" where
  "loadGameQuestion s r =
     \<lparr>lq_row = r, lq_question = find (\<lambda>q. question_id q = questionId r) (questions s)\<rparr>"

definition getExtendedGameById :: "uuid \<Rightarrow> store \<Rightarrow> LoadedGame option" where
  "getExtendedGameById gid s =
     map_option
       (\<lambda>g. \<lparr>lg_game = g,
             lg_questions = map (loadGameQuestion s) (questionsOfGame gid s),
             lg_firstPlayerProgress = loadProgress s (firstPlayerProgressId g),
             lg_secondPlayerProgress = loadProgress s (secondPlayerProgressId g)\<rparr>)
       (find (\<lambda>g. game_id g = gid) (games s))"

section \<open>The response assembled for a game\<close>

record PlayerView =
  pv_id :: uuid
  pv_login :: string

record ProgressView =
  pr_answers :: "string list"
  pr_player :: PlayerView
  pr_score :: nat

record QuestionView =
  qv_id :: uuid
  qv_body :: string

record GameView =
  v_id :: uuid
  v_questions :: "QuestionView list option"
  v_status :: GameStatusEnum
  v_firstPlayerProgress :: ProgressView
  v_secondPlayerProgress :: "ProgressView option"
  v_pairCreatedDate :: timestamp
  v_startGameDate :: "timestamp option"
  v_finishGameDate :: "timestamp option"

text \<open>
  Reading a property of \<^verbatim>\<open>null\<close> or \<^verbatim>\<open>undefined\<close> throws a \<^verbatim>\<open>TypeError\<close>: the
  assembling functions return \<open>None\<close> there, and the callers turn it into the exception.
\<close>

definition progressView :: "LoadedProgress option \<Rightarrow> ProgressView option" where
  "progressView lp =
     (case lp of None \<Rightarrow> None
      | Some l \<Rightarrow>
          (case lp_user l of None \<Rightarrow> None
           | Some u \<Rightarrow>
               Some \<lparr>pr_answers = [],
                     pr_player = \<lparr>pv_id = progress_id (lp_progress l), pv_login = login u\<rparr>,
                     pr_score = score (lp_progress l)\<rparr>))"

definition preparedQuestions :: "LoadedGameQuestion list \<Rightarrow> QuestionView list option" where
  "preparedQuestions qs =
     those (map (\<lambda>q. map_option (\<lambda>x. \<lparr>qv_id = gq_id (lq_row q), qv_body = body x\<rparr>)
                        (lq_question q))
                (sort_key (\<lambda>q. order (lq_row q)) qs))"

definition activeGameView :: "LoadedGame \<Rightarrow> GameView option" where
  "activeGameView game =
     (case preparedQuestions (lg_questions game) of None \<Rightarrow> None
      | Some pq \<Rightarrow>
          (case progressView (lg_firstPlayerProgress game) of None \<Rightarrow> None
           | Some fp \<Rightarrow>
               (case progressView (lg_secondPlayerProgress game) of None \<Rightarrow> None
                | Some sp \<Rightarrow>
                    Some \<lparr>v_id = game_id (lg_game game),
                          v_questions = Some pq,
                          v_status = status (lg_game game),
                          v_firstPlayerProgress = fp,
                          v_secondPlayerProgress = Some sp,
                          v_pairCreatedDate = createdAt (lg_game game),
                          v_startGameDate = startGameDate (lg_game game),
                          v_finishGameDate = finishGameDate (lg_game game)\<rparr>)))"

definition pendingGameView :: "LoadedGame \<Rightarrow> GameView option" where
  "pendingGameView game =
     (case progressView (lg_firstPlayerProgress game) of None \<Rightarrow> None
      | Some fp \<Rightarrow>
          Some \<lparr>v_id = game_id (lg_game game),
                v_questions = None,
                v_status = status (lg_game game),
                v_firstPlayerProgress = fp,
                v_secondPlayerProgress = None,
                v_pairCreatedDate = createdAt (lg_game game),
                v_startGameDate = startGameDate (lg_game game),
                v_finishGameDate = finishGameDate (lg_game game)\<rparr>)"

section \<open>The writing operations\<close>

text \<open>
  The update of \<^verbatim>\<open>connectToGame\<close>: \<^verbatim>\<open>UPDATE game SET ... WHERE id = :id\<close>. A value that
  is \<^verbatim>\<open>undefined\<close> (\<^verbatim>\<open>progress?.id\<close> of a null progress) leaves its column as it is.
\<close>

definition activateGame :: "ProgressEntity option \<Rightarrow> timestamp \<Rightarrow> GameEntity \<Rightarrow> GameEntity" where
  "activateGame progress now g =
     g\<lparr>secondPlayerProgressId :=
         (case progress of None \<Rightarrow> secondPlayerProgressId g | Some p \<Rightarrow> Some (progress_id p)),
       startGameDate := Some now,
       status := active\<rparr>"

definition updateGame :: "uuid \<Rightarrow> ProgressEntity option \<Rightarrow> timestamp \<Rightarrow> store \<Rightarrow> store" where
  "updateGame gid progress now s =
     s\<lparr>games := map (\<lambda>g. if game_id g = gid then activateGame progress now g else g) (games s)\<rparr>"

text \<open>
  \<^verbatim>\<open>connectToGame(userId, existedGame)\<close>. The statements run one after the other on the
  store, outside any transaction: the store that is returned beside an error is the store
  as the statements before the failure left it. The arguments \<open>count\<close> and \<open>seed\<close> are the
  configured number of questions and the random choices of the draw, \<open>now\<close> is the clock.
\<close>

definition connectToGame ::
  "nat \<Rightarrow> nat list \<Rightarrow> timestamp \<Rightarrow> string \<Rightarrow> IExtendedGame \<Rightarrow> store
     \<Rightarrow> (error + GameView option) \<times> store" where
  "connectToGame count seed now uid existedGame s =
     (case createProgress uid s of
        (progress, s1) \<Rightarrow>
          (case getRandomQuestionsForGame seed count s1 of
             Inl e \<Rightarrow> (Inl HttpException_BAD_REQUEST, s1)
           | Inr qs \<Rightarrow>
               (case setRandomQuestionsForGame qs (game_id existedGame) s1 of
                  Inl e \<Rightarrow> (Inl HttpException_BAD_REQUEST, s1)
                | Inr s2 \<Rightarrow>
                    (let s3 = updateGame (game_id existedGame) progress now s2
                     in case getExtendedGameById (game_id existedGame) s3 of
                          None \<Rightarrow> (Inr None, s3)
                        | Some game \<Rightarrow>
                            (case activeGameView game of
                               None \<Rightarrow> (Inl HttpException_BAD_REQUEST, s3)
                             | Some v \<Rightarrow> (Inr (Some v), s3))))))"

text \<open>
  \<^verbatim>\<open>createGame(userId)\<close>: a progress for the user, then a game row in status pending that
  references it, then the re-read and the response. The repository calls no checker here.
\<close>

definition insertGame :: "uuid \<Rightarrow> timestamp \<Rightarrow> store \<Rightarrow> store" where
  "insertGame pid now s =
     s\<lparr>games := games s @
          [\<lparr>game_id = next_id s, status = pending, firstPlayerProgressId = Some pid,
            secondPlayerProgressId = None, createdAt = now, startGameDate = None,
            finishGameDate = None\<rparr>],
       next_id := Suc (next_id s)\<rparr>"

definition createGame :: "timestamp \<Rightarrow> string \<Rightarrow> store \<Rightarrow> (error + GameView option) \<times> store" where
  "createGame now uid s =
     (case createProgress uid s of
        (firstUserProgress, s1) \<Rightarrow>
          (case firstUserProgress of
             None \<Rightarrow> (Inr None, s1)
           | Some p \<Rightarrow>
               (let s2 = insertGame (progress_id p) now s1
                in case getExtendedGameById (next_id s1) s2 of
                     None \<Rightarrow> (Inr None, s2)
                   | Some game \<Rightarrow>
                       (case pendingGameView game of
                          None \<Rightarrow> (Inl HttpException_BAD_REQUEST, s2)
                        | Some v \<Rightarrow> (Inr (Some v), s2)))))"

section \<open>Outcomes, histories of calls and the link invariant\<close>

definition succeeded :: "(error + GameView option) \<Rightarrow> bool" where
  "succeeded r = (case r of Inr (Some v) \<Rightarrow> True | _ \<Rightarrow> False)"

definition failed :: "(error + GameView option) \<Rightarrow> bool" where
  "failed r = (case r of Inl e \<Rightarrow> True | Inr v \<Rightarrow> False)"

text \<open>
  A history is a list of calls of the two writing operations, each with the arguments it
  was given; \<open>run\<close> applies them in turn and keeps the store, whatever each call returned.
\<close>

datatype operation =
  CreateGame timestamp string
| ConnectToGame nat "nat list" timestamp string IExtendedGame

fun step :: "operation \<Rightarrow> store \<Rightarrow> store" where
  "step (CreateGame now uid) s = snd (createGame now uid s)"
| "step (ConnectToGame count seed now uid existedGame) s =
     snd (connectToGame count seed now uid existedGame s)"

fun run :: "operation list \<Rightarrow> store \<Rightarrow> store" where
  "run [] s = s"
| "run (x # xs) s = run xs (step x s)"


text \<open>
  The invariant of section 3 of the specification on one game row: the first player is
  bound, and the second player is bound exactly when the game is active or finished.
\<close>

definition linksMatchStatus :: "GameEntity \<Rightarrow> bool" where
  "linksMatchStatus g =
     (firstPlayerProgressId g \<noteq> None \<and>
      (secondPlayerProgressId g \<noteq> None) = (status g = active \<or> status g = finished))"

section \<open>Concrete stores\<close>

definition questionPool :: "QuestionEntity list" where
  "questionPool =
     [\<lparr>question_id = 1, body = ''q1''\<rparr>, \<lparr>question_id = 2, body = ''q2''\<rparr>,
      \<lparr>question_id = 3, body = ''q3''\<rparr>]"

definition userTable :: "UserEntity list" where
  "userTable =
     [\<lparr>user_id = ''A'', login = ''alice''\<rparr>, \<lparr>user_id = ''B'', login = ''bob''\<rparr>,
      \<lparr>user_id = ''C'', login = ''carol''\<rparr>]"

definition progressOf :: "uuid \<Rightarrow> string \<Rightarrow> ProgressEntity" where
  "progressOf i uid = \<lparr>progress_id = i, userId = uid, score = 0, answers = []\<rparr>"

definition pendingGame :: "uuid \<Rightarrow> uuid \<Rightarrow> timestamp \<Rightarrow> GameEntity" where
  "pendingGame i pid t =
     \<lparr>game_id = i, status = pending, firstPlayerProgressId = Some pid,
      secondPlayerProgressId = None, createdAt = t, startGameDate = None,
      finishGameDate = None\<rparr>"

text \<open>No game yet.\<close>

definition store_empty :: store where
  "store_empty =
     \<lparr>games = [], progresses = [], game_questions = [], questions = questionPool,
      users = userTable, next_id = 10\<rparr>"

text \<open>User A has created game 11 and waits.\<close>

definition store_pending :: store where
  "store_pending =
     \<lparr>games = [pendingGame 11 10 100], progresses = [progressOf 10 ''A''],
      game_questions = [], questions = questionPool, users = userTable, next_id = 12\<rparr>"

definition slot_pending :: IExtendedGame where
  "slot_pending =
     \<lparr>game_id = 11, status = pending, firstPlayerProgressId = Some 10,
      secondPlayerProgressId = None, createdAt = 100, startGameDate = None,
      finishGameDate = None, eg_userId = Some ''A'', eg_questions = None\<rparr>"

text \<open>A game of A and B that the completion collaborator has finished.\<close>

definition store_finished :: store where
  "store_finished =
     \<lparr>games =
        [\<lparr>game_id = 11, status = finished, firstPlayerProgressId = Some 10,
          secondPlayerProgressId = Some 12, createdAt = 100, startGameDate = Some 200,
          finishGameDate = Some 300\<rparr>],
      progresses = [progressOf 10 ''A'', progressOf 12 ''B''],
      game_questions = [], questions = questionPool, users = userTable, next_id = 13\<rparr>"

definition slot_finished :: IExtendedGame where
  "slot_finished =
     \<lparr>game_id = 11, status = finished, firstPlayerProgressId = Some 10,
      secondPlayerProgressId = Some 12, createdAt = 100, startGameDate = Some 200,
      finishGameDate = Some 300, eg_userId = Some ''A'', eg_questions = None\<rparr>"

text \<open>Two pending games, of A (the older) and of B, handed out in either order.\<close>

definition store_scan_old_first :: store where
  "store_scan_old_first =
     \<lparr>games = [pendingGame 11 10 100, pendingGame 13 12 101],
      progresses = [progressOf 10 ''A'', progressOf 12 ''B''],
      game_questions = [], questions = questionPool, users = userTable, next_id = 14\<rparr>"

definition store_scan_new_first :: store where
  "store_scan_new_first =
     \<lparr>games = [pendingGame 13 12 101, pendingGame 11 10 100],
      progresses = [progressOf 10 ''A'', progressOf 12 ''B''],
      game_questions = [], questions = questionPool, users = userTable, next_id = 14\<rparr>"

text \<open>A row in status pending that carries a second player.\<close>

definition store_pending_bound :: store where
  "store_pending_bound =
     \<lparr>games = [(pendingGame 11 10 100)\<lparr>secondPlayerProgressId := Some 12\<rparr>],
      progresses = [progressOf 10 ''A'', progressOf 12 ''B''],
      game_questions = [], questions = questionPool, users = userTable, next_id = 13\<rparr>"

text \<open>An active game whose question rows are handed out in the order 1, 0.\<close>

definition store_unordered :: store where
  "store_unordered =
     \<lparr>games =
        [\<lparr>game_id = 11, status = active, firstPlayerProgressId = Some 10,
          secondPlayerProgressId = Some 12, createdAt = 100, startGameDate = Some 200,
          finishGameDate = None\<rparr>],
      progresses = [progressOf 10 ''A'', progressOf 12 ''B''],
      game_questions =
        [\<lparr>gq_id = 14, gameId = 11, questionId = 2, order = 1\<rparr>,
         \<lparr>gq_id = 13, gameId = 11, questionId = 3, order = 0\<rparr>],
      questions = questionPool, users = userTable, next_id = 15\<rparr>"

text \<open>The two question rows of game 11 in \<open>store_unordered\<close>, as a read loads them.\<close>

definition loaded_order1 :: LoadedGameQuestion where
  "loaded_order1 =
     \<lparr>lq_row = \<lparr>gq_id = 14, gameId = 11, questionId = 2, order = 1\<rparr>,
      lq_question = Some \<lparr>question_id = 2, body = ''q2''\<rparr>\<rparr>"

definition loaded_order0 :: LoadedGameQuestion where
  "loaded_order0 =
     \<lparr>lq_row = \<lparr>gq_id = 13, gameId = 11, questionId = 3, order = 0\<rparr>,
      lq_question = Some \<lparr>question_id = 3, body = ''q3''\<rparr>\<rparr>"

text \<open>The game 16 that user C creates at time 500 in \<open>store_unordered\<close>, as an open slot.\<close>

definition slot_created :: IExtendedGame where
  "slot_created =
     \<lparr>game_id = 16, status = pending, firstPlayerProgressId = Some 15,
      secondPlayerProgressId = None, createdAt = 500, startGameDate = None,
      finishGameDate = None, eg_userId = Some ''C'', eg_questions = None\<rparr>"

text \<open>A game that is not in the store: no row has the id 99.\<close>

definition slot_missing :: IExtendedGame where
  "slot_missing =
     \<lparr>game_id = 99, status = pending, firstPlayerProgressId = Some 98,
      secondPlayerProgressId = None, createdAt = 90, startGameDate = None,
      finishGameDate = None, eg_userId = None, eg_questions = None\<rparr>"

lemmas store_defs =
  questionPool_def userTable_def progressOf_def pendingGame_def store_empty_def
  store_pending_def slot_pending_def store_finished_def slot_finished_def
  store_scan_old_first_def store_scan_new_first_def store_pending_bound_def
  store_unordered_def loaded_order1_def loaded_order0_def slot_created_def slot_missing_def

lemmas op_defs =
  connectToGame_def createGame_def insertGame_def createProgress_def getRandomQuestionsForGame_def
  setRandomQuestionsForGame_def newGameQuestions_def questionsOfGame_def updateGame_def
  activateGame_def getExtendedGameById_def loadProgress_def loadGameQuestion_def
  activeGameView_def pendingGameView_def progressView_def preparedQuestions_def
  getGameInPendingSecondPalyer_def succeeded_def failed_def

section \<open>Facts about the collaborators and the writes\<close>

lemma length_drawFrom: "n \<le> length pool \<Longrightarrow> length (drawFrom seed n pool) = n"
proof (induction n arbitrary: seed pool)
  case 0
  show ?case by simp
next
  case (Suc n)
  then have ne: "pool \<noteq> []" by auto
  define i where "i = (case seed of [] \<Rightarrow> 0 | r # _ \<Rightarrow> r mod length pool)"
  have "i < length pool" using ne by (auto simp: i_def split: list.splits)
  then have "n \<le> length (take i pool @ drop (Suc i) pool)" using Suc.prems by auto
  then have "length (drawFrom (tl seed) n (take i pool @ drop (Suc i) pool)) = n"
    by (rule Suc.IH)
  then show ?case using ne by (simp add: Let_def i_def)
qed

lemma order_newGameQuestions: "map order (newGameQuestions base gid qs) = [0..<length qs]"
proof -
  have "map order (newGameQuestions base gid qs) = map fst (enumerate 0 qs)"
    by (simp add: newGameQuestions_def comp_def split_def)
  then show ?thesis by (simp add: map_fst_enumerate)
qed

lemma filter_newGameQuestions:
  "filter (\<lambda>r. gameId r = g) (newGameQuestions base gid qs) =
     (if g = gid then newGameQuestions base gid qs else [])"
  by (auto simp: newGameQuestions_def filter_empty_conv case_prod_beta)

lemma getExtendedGameById_Some:
  "getExtendedGameById gid s = Some game \<Longrightarrow> \<exists>g\<in>set (games s). game_id g = gid"
  by (auto simp: getExtendedGameById_def find_Some_iff)

lemma getExtendedGameById_None:
  "getExtendedGameById gid s = None \<Longrightarrow> \<forall>g\<in>set (games s). game_id g \<noteq> gid"
  by (auto simp: getExtendedGameById_def find_None_iff)

text \<open>What \<open>connectToGame\<close> leaves in each table, whatever it returns.\<close>

lemma progresses_connectToGame:
  "progresses (snd (connectToGame count seed now uid eg s)) =
     progresses s @ [\<lparr>progress_id = next_id s, userId = uid, score = 0, answers = []\<rparr>]"
  by (simp add: connectToGame_def createProgress_def getRandomQuestionsForGame_def setRandomQuestionsForGame_def
      updateGame_def questionsOfGame_def Let_def split: option.splits sum.splits)

lemma games_connectToGame:
  "games (snd (connectToGame count seed now uid eg s)) =
     (if length (questions s) < count \<or> questionsOfGame (game_id eg) s \<noteq> [] then games s
      else map (\<lambda>g. if game_id g = game_id eg
                     then g\<lparr>secondPlayerProgressId := Some (next_id s),
                            startGameDate := Some now, status := active\<rparr>
                     else g) (games s))"
  by (simp add: connectToGame_def createProgress_def getRandomQuestionsForGame_def setRandomQuestionsForGame_def
      updateGame_def activateGame_def questionsOfGame_def Let_def
      split: option.splits sum.splits)

lemma game_questions_connectToGame:
  "game_questions (snd (connectToGame count seed now uid eg s)) =
     (if length (questions s) < count \<or> questionsOfGame (game_id eg) s \<noteq> []
      then game_questions s
      else game_questions s @
             newGameQuestions (Suc (next_id s)) (game_id eg) (drawFrom seed count (questions s)))"
  by (simp add: connectToGame_def createProgress_def getRandomQuestionsForGame_def setRandomQuestionsForGame_def
      updateGame_def questionsOfGame_def Let_def split: option.splits sum.splits)


lemma questionsOfGame_after_write:
  assumes "count \<le> length (questions s)" and "questionsOfGame (game_id eg) s = []"
  shows "map order (questionsOfGame (game_id eg) (snd (connectToGame count seed now uid eg s))) =
           [0..<count]"
proof -
  have "questionsOfGame (game_id eg) (snd (connectToGame count seed now uid eg s)) =
      newGameQuestions (Suc (next_id s)) (game_id eg) (drawFrom seed count (questions s))"
    using assms
    by (simp add: questionsOfGame_def game_questions_connectToGame filter_newGameQuestions)
  then show ?thesis
    using assms(1) by (simp add: order_newGameQuestions length_drawFrom)
qed

lemma activated_rows:
  assumes "count \<le> length (questions s)" and "questionsOfGame (game_id eg) s = []"
  shows "\<forall>g\<in>set (games (snd (connectToGame count seed now uid eg s))).
           game_id g = game_id eg \<longrightarrow>
             status g = active \<and> startGameDate g = Some now \<and>
             secondPlayerProgressId g = Some (next_id s)"
  using assms by (auto simp: games_connectToGame)

lemma activated_row_exists:
  assumes "count \<le> length (questions s)" and "questionsOfGame (game_id eg) s = []"
    and "\<exists>g\<in>set (games s). game_id g = game_id eg"
  shows "\<exists>g\<in>set (games (snd (connectToGame count seed now uid eg s))). game_id g = game_id eg"
proof -
  from assms(3) obtain g0 where g0: "g0 \<in> set (games s)" "game_id g0 = game_id eg" by blast
  let ?g = "g0\<lparr>secondPlayerProgressId := Some (next_id s),
                startGameDate := Some now, status := active\<rparr>"
  have "?g \<in> set (games (snd (connectToGame count seed now uid eg s)))"
    using assms(1,2) g0 by (auto simp: games_connectToGame image_iff intro!: bexI [of _ g0])
  moreover have "game_id ?g = game_id eg" using g0 by simp
  ultimately show ?thesis by blast
qed


text \<open>What the re-read of \<open>connectToGame\<close> sees, and what each kind of result tells.\<close>

lemma getExtendedGameById_eq_None:
  "(getExtendedGameById gid s = None) = (gid \<notin> set (map game_id (games s)))"
  by (auto simp: getExtendedGameById_def find_None_iff)

lemma game_ids_connectToGame:
  "map game_id (games (snd (connectToGame count seed now uid eg s))) = map game_id (games s)"
  by (simp add: games_connectToGame comp_def if_distrib cong: if_cong)

lemma fst_connectToGame:
  "fst (connectToGame count seed now uid eg s) =
     (if length (questions s) < count \<or> questionsOfGame (game_id eg) s \<noteq> []
      then Inl HttpException_BAD_REQUEST
      else (case getExtendedGameById (game_id eg) (snd (connectToGame count seed now uid eg s)) of
              None \<Rightarrow> Inr None
            | Some game \<Rightarrow>
                (case activeGameView game of
                   None \<Rightarrow> Inl HttpException_BAD_REQUEST
                 | Some v \<Rightarrow> Inr (Some v))))"
  by (simp add: connectToGame_def createProgress_def getRandomQuestionsForGame_def setRandomQuestionsForGame_def
      questionsOfGame_def Let_def split: option.splits sum.splits)

lemma connectToGame_success_cases:
  assumes "succeeded (fst (connectToGame count seed now uid eg s))"
  shows "count \<le> length (questions s)" and "questionsOfGame (game_id eg) s = []"
    and "\<exists>g\<in>set (games s). game_id g = game_id eg"
proof -
  from assms have c: "\<not> (length (questions s) < count \<or> questionsOfGame (game_id eg) s \<noteq> [])"
    by (subst (asm) fst_connectToGame) (simp add: succeeded_def split: if_splits)
  from c show "count \<le> length (questions s)" and "questionsOfGame (game_id eg) s = []"
    by simp_all
  from assms c
  have "getExtendedGameById (game_id eg) (snd (connectToGame count seed now uid eg s)) \<noteq> None"
    by (subst (asm) fst_connectToGame) (auto simp: succeeded_def split: option.splits)
  then show "\<exists>g\<in>set (games s). game_id g = game_id eg"
    by (simp add: getExtendedGameById_eq_None game_ids_connectToGame image_iff) metis
qed


text \<open>What \<open>createGame\<close> leaves in the store, whatever it returns.\<close>

lemma snd_createGame:
  "snd (createGame now uid s) =
     s\<lparr>progresses := progresses s @ [progressOf (next_id s) uid],
       games := games s @ [pendingGame (Suc (next_id s)) (next_id s) now],
       next_id := Suc (Suc (next_id s))\<rparr>"
  by (simp add: createGame_def createProgress_def insertGame_def pendingGame_def progressOf_def
      Let_def split: option.splits)

lemma fst_createGame_not_conflict:
  "fst (createGame now uid s) \<noteq> Inl ParticipationConflict"
  by (simp add: createGame_def createProgress_def Let_def split: option.splits)













lemma linksMatchStatus_step:
  assumes "\<forall>g\<in>set (games s). linksMatchStatus g"
  shows "\<forall>g\<in>set (games (step x s)). linksMatchStatus g"
proof (cases x)
  case (CreateGame now uid)
  have "linksMatchStatus (pendingGame (Suc (next_id s)) (next_id s) now)"
    by (simp add: linksMatchStatus_def pendingGame_def)
  with assms CreateGame show ?thesis by (simp add: snd_createGame)
next
  case (ConnectToGame count seed now uid eg)
  have "linksMatchStatus (g\<lparr>secondPlayerProgressId := Some (next_id s),
          startGameDate := Some now, status := active\<rparr>)" if "linksMatchStatus g" for g
    using that by (simp add: linksMatchStatus_def)
  with assms ConnectToGame show ?thesis by (auto simp: games_connectToGame)
qed


section \<open>The activating write of \<open>connectToGame\<close>\<close>

text \<open>
  Claim C1, as the code has it. The update of \<^verbatim>\<open>connectToGame\<close> selects the row by its id
  and by nothing else. Whether it runs depends on the draw and on the assignment of the
  questions (the pool holds \<open>count\<close> questions, the game has no question rows yet), never
  on the status of the game or on its second player; when it runs, every row with that id
  becomes active and gets the caller's new progress as second player, and the other rows
  stay as they are.
\<close>

theorem connectToGame_write_keyed_on_id:
  "games (snd (connectToGame count seed now uid eg s)) =
     (if length (questions s) < count \<or> questionsOfGame (game_id eg) s \<noteq> [] then games s
      else map (\<lambda>g. if game_id g = game_id eg
                     then activateGame (Some (progressOf (next_id s) uid)) now g
                     else g) (games s))"
proof (cases "length (questions s) < count \<or> questionsOfGame (game_id eg) s \<noteq> []")
  case True
  then have "games (snd (connectToGame count seed now uid eg s)) = games s"
    by (simp add: games_connectToGame)
  with True show ?thesis by simp
next
  case False
  have "activateGame (Some (progressOf (next_id s) uid)) now g =
          g\<lparr>secondPlayerProgressId := Some (next_id s), startGameDate := Some now,
            status := active\<rparr>" for g
    by (simp add: activateGame_def progressOf_def)
  with False show ?thesis by (simp add: games_connectToGame)
qed

theorem connectToGame_write_keyed_on_id_witness:
  "games (snd (connectToGame 2 [5, 1] 200 ''B'' slot_pending store_pending)) =
     [\<lparr>game_id = 11, status = active, firstPlayerProgressId = Some 10,
       secondPlayerProgressId = Some 12, createdAt = 100, startGameDate = Some 200,
       finishGameDate = None\<rparr>]"
  using connectToGame_write_keyed_on_id [of 2 "[5, 1]" 200 "''B''" slot_pending store_pending]
  by (simp add: store_defs questionsOfGame_def activateGame_def)

text \<open>
  Claim C1 as stated fails: a call whose target game is finished and has a second player
  turns the game active again and replaces its second player.
\<close>

theorem connectToGame_overwrites_finished_game:
  "games store_finished =
     [\<lparr>game_id = 11, status = finished, firstPlayerProgressId = Some 10,
       secondPlayerProgressId = Some 12, createdAt = 100, startGameDate = Some 200,
       finishGameDate = Some 300\<rparr>] \<and>
   games (snd (connectToGame 2 [5, 1] 400 ''C'' slot_finished store_finished)) =
     [\<lparr>game_id = 11, status = active, firstPlayerProgressId = Some 10,
       secondPlayerProgressId = Some 13, createdAt = 100, startGameDate = Some 400,
       finishGameDate = Some 300\<rparr>]"
  by (simp add: store_defs games_connectToGame questionsOfGame_def)

section \<open>\<open>createGame\<close> and the admission gate\<close>

text \<open>
  Claim C3, as the code has it. \<^verbatim>\<open>createGame\<close> of the repository asks no checker: for every
  user and every store it adds a progress of the user and a pending game that references
  it, and it never fails with \<open>ParticipationConflict\<close>.
\<close>

theorem createGame_always_creates:
  "fst (createGame now uid s) \<noteq> Inl ParticipationConflict \<and>
   progresses (snd (createGame now uid s)) = progresses s @ [progressOf (next_id s) uid] \<and>
   games (snd (createGame now uid s)) =
     games s @ [pendingGame (Suc (next_id s)) (next_id s) now]"
proof -
  have "fst (createGame now uid s) \<noteq> Inl ParticipationConflict"
    by (rule fst_createGame_not_conflict)
  moreover have "progresses (snd (createGame now uid s)) =
      progresses s @ [progressOf (next_id s) uid]"
    by (simp add: snd_createGame)
  moreover have "games (snd (createGame now uid s)) =
      games s @ [pendingGame (Suc (next_id s)) (next_id s) now]"
    by (simp add: snd_createGame)
  ultimately show ?thesis by blast
qed

theorem createGame_always_creates_witness:
  "fst (createGame 100 ''A'' store_empty) \<noteq> Inl ParticipationConflict \<and>
   progresses (snd (createGame 100 ''A'' store_empty)) = [progressOf 10 ''A''] \<and>
   games (snd (createGame 100 ''A'' store_empty)) = [pendingGame 11 10 100]"
  using createGame_always_creates [of 100 "''A''" store_empty]
  by (simp add: store_empty_def)

text \<open>
  Claim C3 as stated fails: user A, who waits in the pending game 11, calls
  \<^verbatim>\<open>createGame\<close> again; the call succeeds and leaves two pending games of A.
\<close>

theorem createGame_twice_two_pending_games:
  "snd (createGame 100 ''A'' store_empty) = store_pending \<and>
   fst (createGame 101 ''A'' store_pending) =
     Inr (Some \<lparr>v_id = 13, v_questions = None, v_status = pending,
                v_firstPlayerProgress =
                  \<lparr>pr_answers = [], pr_player = \<lparr>pv_id = 12, pv_login = ''alice''\<rparr>,
                   pr_score = 0\<rparr>,
                v_secondPlayerProgress = None, v_pairCreatedDate = 101,
                v_startGameDate = None, v_finishGameDate = None\<rparr>) \<and>
   games (snd (createGame 101 ''A'' store_pending)) =
     [pendingGame 11 10 100, pendingGame 13 12 101] \<and>
   progresses (snd (createGame 101 ''A'' store_pending)) =
     [progressOf 10 ''A'', progressOf 12 ''A'']"
  by (simp add: store_defs op_defs Let_def)

section \<open>A successful join\<close>

text \<open>
  Claim C4. After a call \<^verbatim>\<open>connectToGame(B, G)\<close> that returns a game: the store holds the
  progress created for B; the row of G exists, is active, has its start date set to the
  time of the call and has B's new progress as second player; and the question rows of G
  are exactly \<open>count\<close> rows with the orders \<open>0, ..., count - 1\<close>.
\<close>

theorem connectToGame_success_activates:
  assumes "succeeded (fst (connectToGame count seed now B G s))"
  shows "(\<exists>p\<in>set (progresses (snd (connectToGame count seed now B G s))).
            progress_id p = next_id s \<and> userId p = B) \<and>
         (\<exists>g\<in>set (games (snd (connectToGame count seed now B G s))). game_id g = game_id G) \<and>
         (\<forall>g\<in>set (games (snd (connectToGame count seed now B G s))).
            game_id g = game_id G \<longrightarrow>
              status g = active \<and> startGameDate g = Some now \<and>
              secondPlayerProgressId g = Some (next_id s)) \<and>
         map order (questionsOfGame (game_id G) (snd (connectToGame count seed now B G s))) =
           [0..<count]"
proof -
  note c = connectToGame_success_cases [OF assms]
  have "\<exists>p\<in>set (progresses (snd (connectToGame count seed now B G s))).
            progress_id p = next_id s \<and> userId p = B"
    by (simp add: progresses_connectToGame)
  moreover note activated_row_exists [OF c] activated_rows [OF c(1,2)]
    questionsOfGame_after_write [OF c(1,2)]
  ultimately show ?thesis by blast
qed

theorem connectToGame_success_activates_witness:
  "succeeded (fst (connectToGame 2 [5, 1] 200 ''B'' slot_pending store_pending)) \<and>
   (\<exists>p\<in>set (progresses (snd (connectToGame 2 [5, 1] 200 ''B'' slot_pending store_pending))).
      progress_id p = 12 \<and> userId p = ''B'') \<and>
   (\<exists>g\<in>set (games (snd (connectToGame 2 [5, 1] 200 ''B'' slot_pending store_pending))).
      game_id g = 11 \<and> status g = active \<and> startGameDate g = Some 200 \<and>
      secondPlayerProgressId g = Some 12) \<and>
   map order (questionsOfGame 11 (snd (connectToGame 2 [5, 1] 200 ''B'' slot_pending store_pending))) =
     [0..<2]"
proof -
  have h: "succeeded (fst (connectToGame 2 [5, 1] 200 ''B'' slot_pending store_pending))"
    by (simp add: store_defs op_defs Let_def numeral_2_eq_2)
  have "next_id store_pending = 12" and "game_id slot_pending = 11"
    by (simp_all add: store_defs)
  with connectToGame_success_activates [OF h] h show ?thesis by (simp only:) blast
qed

section \<open>The link invariant along histories\<close>

text \<open>
  Claim C5. Along every history of \<^verbatim>\<open>createGame\<close> and \<^verbatim>\<open>connectToGame\<close> calls, with any
  arguments and whatever the calls return, that starts in a store whose games satisfy the
  link invariant (a store without games does): every game has its first player bound and
  has a second player exactly when its status is active or finished. So a pending game has
  the first player only, and an active game has both progress links.
\<close>

theorem links_match_status_along_run:
  assumes "\<forall>g\<in>set (games s). linksMatchStatus g"
  shows "\<forall>g\<in>set (games (run ops s)).
           linksMatchStatus g \<and>
           (status g = pending \<longrightarrow>
              firstPlayerProgressId g \<noteq> None \<and> secondPlayerProgressId g = None) \<and>
           (status g = active \<longrightarrow>
              firstPlayerProgressId g \<noteq> None \<and> secondPlayerProgressId g \<noteq> None)"
proof -
  have "\<forall>g\<in>set (games (run ops s)). linksMatchStatus g"
    using assms
  proof (induction ops arbitrary: s)
    case Nil
    then show ?case by simp
  next
    case (Cons x xs)
    from Cons.prems have "\<forall>g\<in>set (games (step x s)). linksMatchStatus g"
      by (rule linksMatchStatus_step)
    then show ?case by (simp add: Cons.IH)
  qed
  then show ?thesis by (auto simp: linksMatchStatus_def)
qed

theorem links_match_status_along_run_witness:
  "games store_empty = [] \<and>
   games (run [CreateGame 100 ''A'', ConnectToGame 2 [5, 1] 200 ''B'' slot_pending]
            store_empty) =
     [\<lparr>game_id = 11, status = active, firstPlayerProgressId = Some 10,
       secondPlayerProgressId = Some 12, createdAt = 100, startGameDate = Some 200,
       finishGameDate = None\<rparr>] \<and>
   list_all linksMatchStatus
     (games (run [CreateGame 100 ''A'', ConnectToGame 2 [5, 1] 200 ''B'' slot_pending]
               store_empty))"
proof -
  have e: "games store_empty = []" by (simp add: store_defs)
  then have h: "\<forall>g\<in>set (games store_empty). linksMatchStatus g" by simp
  have r: "games (run [CreateGame 100 ''A'', ConnectToGame 2 [5, 1] 200 ''B'' slot_pending]
            store_empty) =
     [\<lparr>game_id = 11, status = active, firstPlayerProgressId = Some 10,
       secondPlayerProgressId = Some 12, createdAt = 100, startGameDate = Some 200,
       finishGameDate = None\<rparr>]"
    by (simp add: store_defs snd_createGame games_connectToGame questionsOfGame_def)
  from links_match_status_along_run
    [OF h, of "[CreateGame 100 ''A'', ConnectToGame 2 [5, 1] 200 ''B'' slot_pending]"]
  have "list_all linksMatchStatus
       (games (run [CreateGame 100 ''A'', ConnectToGame 2 [5, 1] 200 ''B'' slot_pending]
                 store_empty))"
    unfolding list_all_iff by blast
  with e r show ?thesis by blast
qed

section \<open>Failures and the null result of \<open>connectToGame\<close>\<close>







section \<open>The open slot\<close>

text \<open>
  Claim C7, as the code has it. \<^verbatim>\<open>getGameInPendingSecondPalyer\<close> returns at most one game
  (its result is one row or null). A game it returns is pending and has its first player
  bound; it is the first row, in the order in which the store hands out the games, with
  these two properties: the query names no order. The query does not look at the second
  player: the game it returns has none when no pending game of the store has one.
\<close>

theorem getGameInPendingSecondPalyer_first_match:
  assumes "getGameInPendingSecondPalyer s = Some eg"
  shows "status eg = pending \<and> firstPlayerProgressId eg \<noteq> None \<and>
         (\<exists>i<length (games s).
            GameEntity.truncate eg = games s ! i \<and>
            (\<forall>j<i. \<not> (status (games s ! j) = pending \<and>
                         firstPlayerProgressId (games s ! j) \<noteq> None))) \<and>
         ((\<forall>g\<in>set (games s). status g = pending \<longrightarrow> secondPlayerProgressId g = None) \<longrightarrow>
            secondPlayerProgressId eg = None)"
proof -
  from assms obtain g where
    f: "find (\<lambda>g. status g = pending \<and> firstPlayerProgressId g \<noteq> None) (games s) = Some g"
    and eg: "GameEntity.truncate eg = g"
    by (auto simp: getGameInPendingSecondPalyer_def GameEntity.truncate_def
        split: option.splits)
  from f obtain i where i: "i < length (games s)" "g = games s ! i"
    "status g = pending \<and> firstPlayerProgressId g \<noteq> None"
    "\<forall>j<i. \<not> (status (games s ! j) = pending \<and> firstPlayerProgressId (games s ! j) \<noteq> None)"
    unfolding find_Some_iff by blast
  from eg have same: "status eg = status g" "firstPlayerProgressId eg = firstPlayerProgressId g"
    "secondPlayerProgressId eg = secondPlayerProgressId g"
    by (auto simp: GameEntity.truncate_def)
  from i(1,2) have "g \<in> set (games s)" by simp
  with i same eg show ?thesis by auto
qed

theorem getGameInPendingSecondPalyer_first_match_witness:
  "getGameInPendingSecondPalyer store_pending = Some slot_pending \<and>
   list_all (\<lambda>g. status g \<noteq> pending \<or> secondPlayerProgressId g = None) (games store_pending) \<and>
   status slot_pending = pending \<and> firstPlayerProgressId slot_pending \<noteq> None \<and>
   secondPlayerProgressId slot_pending = None"
proof -
  have h: "getGameInPendingSecondPalyer store_pending = Some slot_pending"
    by (simp add: store_defs getGameInPendingSecondPalyer_def)
  have inv: "\<forall>g\<in>set (games store_pending). status g = pending \<longrightarrow> secondPlayerProgressId g = None"
    by (simp add: store_defs)
  have l: "list_all (\<lambda>g. status g \<noteq> pending \<or> secondPlayerProgressId g = None)
      (games store_pending)"
    by (simp add: store_defs)
  from getGameInPendingSecondPalyer_first_match [OF h] inv h l show ?thesis by blast
qed

text \<open>
  Claim C7 as stated fails. The same two pending games, handed out in the two possible
  orders, give two different answers, and in the second store the newer game is returned;
  and a pending row that carries a second player is returned as an open slot.
\<close>

theorem getGameInPendingSecondPalyer_depends_on_scan_order:
  "set (games store_scan_old_first) = set (games store_scan_new_first) \<and>
   map_option game_id (getGameInPendingSecondPalyer store_scan_old_first) = Some 11 \<and>
   map_option createdAt (getGameInPendingSecondPalyer store_scan_old_first) = Some 100 \<and>
   map_option game_id (getGameInPendingSecondPalyer store_scan_new_first) = Some 13 \<and>
   map_option createdAt (getGameInPendingSecondPalyer store_scan_new_first) = Some 101 \<and>
   map_option secondPlayerProgressId (getGameInPendingSecondPalyer store_pending_bound) =
     Some (Some 12)"
  by (auto simp: store_defs getGameInPendingSecondPalyer_def)

section \<open>Joining one's own game\<close>

text \<open>
  Claim C8, as the code has it. Neither \<^verbatim>\<open>getGameInPendingSecondPalyer\<close> nor
  \<^verbatim>\<open>connectToGame\<close> compares the caller with the first player of the game. When the
  first returns a game and the second, called by user \<open>u\<close> with that game, returns a
  game, the row is active and its second player is the progress just created for \<open>u\<close>,
  whoever the first player is.
\<close>

theorem join_path_binds_caller:
  assumes "getGameInPendingSecondPalyer s = Some eg"
    and "succeeded (fst (connectToGame count seed now u eg s))"
  shows "progressOf (next_id s) u \<in> set (progresses (snd (connectToGame count seed now u eg s))) \<and>
         (\<exists>g\<in>set (games (snd (connectToGame count seed now u eg s))). game_id g = game_id eg) \<and>
         (\<forall>g\<in>set (games (snd (connectToGame count seed now u eg s))).
            game_id g = game_id eg \<longrightarrow>
              status g = active \<and> secondPlayerProgressId g = Some (next_id s))"
proof -
  note c = connectToGame_success_cases [OF assms(2)]
  have "progressOf (next_id s) u \<in> set (progresses (snd (connectToGame count seed now u eg s)))"
    by (simp add: progresses_connectToGame progressOf_def)
  moreover note activated_row_exists [OF c] activated_rows [OF c(1,2)]
  ultimately show ?thesis by blast
qed

theorem join_path_binds_caller_witness:
  "getGameInPendingSecondPalyer store_pending = Some slot_pending \<and>
   eg_userId slot_pending = Some ''A'' \<and>
   succeeded (fst (connectToGame 2 [5, 1] 200 ''A'' slot_pending store_pending)) \<and>
   progressOf 12 ''A'' \<in>
     set (progresses (snd (connectToGame 2 [5, 1] 200 ''A'' slot_pending store_pending))) \<and>
   (\<exists>g\<in>set (games (snd (connectToGame 2 [5, 1] 200 ''A'' slot_pending store_pending))).
      game_id g = 11 \<and> status g = active \<and> secondPlayerProgressId g = Some 12)"
proof -
  have h1: "getGameInPendingSecondPalyer store_pending = Some slot_pending"
    by (simp add: store_defs getGameInPendingSecondPalyer_def)
  have h2: "succeeded (fst (connectToGame 2 [5, 1] 200 ''A'' slot_pending store_pending))"
    by (simp add: store_defs op_defs Let_def numeral_2_eq_2)
  have "next_id store_pending = 12" and "game_id slot_pending = 11"
    and "eg_userId slot_pending = Some ''A''"
    by (simp_all add: store_defs)
  with join_path_binds_caller [OF h1 h2] h1 h2 show ?thesis by (simp only:) blast
qed

text \<open>
  Claim C8 as stated fails: user A waits in game 11; the open slot that is found is A's
  own game; A joins it, and the game is active with two progress records of A.
\<close>

theorem user_joins_own_pending_game:
  "getGameInPendingSecondPalyer store_pending = Some slot_pending \<and>
   eg_userId slot_pending = Some ''A'' \<and>
   succeeded (fst (connectToGame 2 [5, 1] 200 ''A'' slot_pending store_pending)) \<and>
   games (snd (connectToGame 2 [5, 1] 200 ''A'' slot_pending store_pending)) =
     [\<lparr>game_id = 11, status = active, firstPlayerProgressId = Some 10,
       secondPlayerProgressId = Some 12, createdAt = 100, startGameDate = Some 200,
       finishGameDate = None\<rparr>] \<and>
   progresses (snd (connectToGame 2 [5, 1] 200 ''A'' slot_pending store_pending)) =
     [progressOf 10 ''A'', progressOf 12 ''A'']"
proof -
  have "getGameInPendingSecondPalyer store_pending = Some slot_pending"
    by (simp add: store_defs getGameInPendingSecondPalyer_def)
  moreover have "eg_userId slot_pending = Some ''A''"
    by (simp add: store_defs)
  moreover have "succeeded (fst (connectToGame 2 [5, 1] 200 ''A'' slot_pending store_pending))"
    by (simp add: store_defs op_defs Let_def numeral_2_eq_2)
  moreover have "games (snd (connectToGame 2 [5, 1] 200 ''A'' slot_pending store_pending)) =
     [\<lparr>game_id = 11, status = active, firstPlayerProgressId = Some 10,
       secondPlayerProgressId = Some 12, createdAt = 100, startGameDate = Some 200,
       finishGameDate = None\<rparr>]"
    by (simp add: store_defs games_connectToGame questionsOfGame_def)
  moreover have "progresses (snd (connectToGame 2 [5, 1] 200 ''A'' slot_pending store_pending)) =
     [progressOf 10 ''A'', progressOf 12 ''A'']"
    by (simp add: store_defs progresses_connectToGame)
  ultimately show ?thesis by blast
qed

section \<open>The question sequence of a game\<close>




end
